theory Spec2Isabelle
  imports Main "HOL-Library.AList"
begin

section \<open>Python data used by strategy.py\<close>

text \<open>
  A Python dict keeps its keys in insertion order and holds each key once, so it is an
  association list: \<open>map_of\<close> reads a key, \<open>AList.update\<close> is \<open>d[k] = v\<close> (an
  existing key keeps its position, a new key goes last), \<open>AList.delete\<close> removes a key.
\<close>

type_synonym 'v dict = "(string \<times> 'v) list"

text \<open>
  The exceptions that can leave the code. \<open>Exception\<close> carries the message of the two
  \<open>raise Exception(...)\<close> statements of \<open>Strategy.backtest\<close>; \<open>ValueError\<close> is
  Python's failure to unpack an iterable into two targets and pandas' refusal to build a
  frame from scalars only, \<open>KeyError\<close> and \<open>IndexError\<close> are failed subscripts; \<open>LibraryError\<close> stands for an exception raised inside pandas or
  vectorbt (index construction, column assignment, broadcasting) and \<open>CalleeError\<close> for
  one raised by a collaborator that is passed in (user function, simulator).
  \<open>InvalidParameterSpec\<close> is the enumerator's error of the specification.
\<close>

datatype error =
    Exception string
  | InvalidParameterSpec
  | ValueError
  | KeyError
  | IndexError
  | LibraryError
  | CalleeError string

text \<open>
  The specification's names for the two errors of the side check. The code has no
  exception classes of its own: it raises \<open>Exception\<close> with these two messages.
\<close>

definition UnsupportedSide :: error where
  "UnsupportedSide = Exception ''Shorting is not support yet''"

definition InvalidArgumentError :: error where
  "InvalidArgumentError =
     Exception (''side should be '' @ [CHR 0x27] @ ''long'' @ [CHR 0x27] @ '' or ''
                @ [CHR 0x27] @ ''short'' @ [CHR 0x27])"

section \<open>Parameter enumeration\<close>

text \<open>
  A parameter spec maps each name to one scalar (not swept) or to a sequence of candidate
  values (swept).
\<close>

datatype 'v candidates = Scalar 'v | Sweep "'v list"

type_synonym 'v parameter_spec = "'v candidates dict"

fun candidates_of :: "'v candidates \<Rightarrow> 'v list" where
  "candidates_of (Scalar v) = [v]"
| "candidates_of (Sweep vs) = vs"

fun cartesian :: "'v parameter_spec \<Rightarrow> 'v dict list" where
  "cartesian [] = [[]]"
| "cartesian ((k, c) # rest) =
     concat (map (\<lambda>v. map (\<lambda>a. (k, v) # a) (cartesian rest)) (candidates_of c))"

text \<open>
  Modelled from the spec: \<open>enumerate_variables\<close> is imported from
  \<open>finlab_crypto.utility\<close>, which is not among the sources. Section 4.1: the ordered
  list of all assignments of the Cartesian product of each key's candidate set, the first
  declared key as the outer loop; \<open>InvalidParameterSpec\<close> if any sweep sequence is
  empty. For the empty spec the helper yields no assignment: the single default
  assignment of the specification is supplied by the fallback of the two callers
  (\<open>if len(variable_enumerate) == 0\<close> in \<open>Filter.create\<close>,
  \<open>if not variable_enumerate\<close> in \<open>Strategy.backtest\<close>), which the helper cannot do
  itself since it does not receive the default parameters.
\<close>

definition enumerate_variables :: "'v parameter_spec \<Rightarrow> error + 'v dict list" where
  "enumerate_variables variables =
     (if variables = [] then Inr []
      else if list_ex (\<lambda>(k, c). candidates_of c = []) variables then Inl InvalidParameterSpec
      else Inr (cartesian variables))"

section \<open>The Filter class\<close>

text \<open>
  An instance of \<open>Filter\<close> (and of \<open>Strategy\<close>, whose \<open>__init__\<close> and
  \<open>set_parameters\<close> are the same text). \<open>attrs\<close> holds the attributes that
  \<open>setattr\<close> creates from parameter names, \<open>variables_attr\<close> is \<open>self._variables\<close>
  (\<open>None\<close> until \<open>set_parameters\<close> first runs). \<open>self.func\<close> and \<open>self.filters\<close>
  are assigned once in \<open>__init__\<close> and never again, so they are parameters of the
  functions below rather than fields; parameter names are taken to differ from the
  instance's own attribute names.
\<close>

record 'v filter_instance =
  attrs :: "string \<rightharpoonup> 'v"
  variables_attr :: "'v dict option"

definition set_parameters :: "'v filter_instance \<Rightarrow> 'v dict \<Rightarrow> 'v filter_instance" where
  "set_parameters self variables =
     (let self1 = (if variables \<noteq> []
                   then fold (\<lambda>(key, val) s. s\<lparr>attrs := (attrs s)(key \<mapsto> val)\<rparr>) variables self
                   else self)
      in self1\<lparr>variables_attr := Some variables\<rparr>)"

definition init :: "'v dict \<Rightarrow> 'v filter_instance" where
  "init default_parameters =
     set_parameters \<lparr>attrs = Map.empty, variables_attr = None\<rparr> default_parameters"

text \<open>
  A value stored in the \<open>signals\<close> dict, as \<open>pd.DataFrame\<close> tells them apart: a
  pandas Series, which becomes a column, or a scalar, which pandas spreads over the rows
  of the other columns and refuses when every value of the dict is a scalar.
\<close>

datatype ('s, 'x) cell = SeriesCell 's | ScalarCell 'x

fun is_scalar :: "('s, 'x) cell \<Rightarrow> bool" where
  "is_scalar (SeriesCell s) = False"
| "is_scalar (ScalarCell x) = True"

text \<open>
  What the user's function returns, as \<open>ret_f\<close> dispatches on it: an iterable that
  unpacks into exactly two targets (signal, fig_data); any other iterable, on which the
  unpacking raises \<open>ValueError\<close>; or a value that is not an instance of \<open>Iterable\<close>,
  which is a scalar to pandas.
\<close>

datatype ('s, 'x, 'f) results = Tuple2 "('s, 'x) cell" 'f | OtherIterable | NotIterable 'x

text \<open>
  A diagnostic bundle (\<open>fig_data\<close>): category name to artifact name to artifact.
\<close>

type_synonym 'a fig_bundle = "'a dict dict"

text \<open>
  A table (pandas DataFrame): the names of the levels of its column index and, per
  column, the tuple of level values with the column's data.
\<close>

record ('v, 'c) table =
  names :: "string list"
  cols :: "('v list \<times> 'c) list"

text \<open>
  The loop of \<open>ret_f\<close> (lines 108 to 118). The user function reads its parameters from
  the instance, so it takes the instance as it is after \<open>set_parameters\<close>. \<open>enc\<close>
  is \<open>str(remove_pd_object(v))\<close>: both are outside the sources. The instance is
  returned in every case, since \<open>set_parameters\<close> has run before the function can fail.
\<close>

fun variant_loop ::
  "('v filter_instance \<Rightarrow> 'o \<Rightarrow> ('s, 'x, 'a fig_bundle) results) \<Rightarrow> ('v dict \<Rightarrow> 'k) \<Rightarrow> 'o \<Rightarrow>
   'v dict list \<Rightarrow> 'v filter_instance \<Rightarrow> ('k \<times> ('s, 'x) cell) list \<Rightarrow> 'a fig_bundle \<Rightarrow>
   'v filter_instance \<times> (error + ('k \<times> ('s, 'x) cell) list \<times> 'a fig_bundle)" where
  "variant_loop func enc ohlcv [] self signals fig_data = (self, Inr (signals, fig_data))"
| "variant_loop func enc ohlcv (v # vs) self signals fig_data =
     (let self1 = set_parameters self v;
          res = func self1 ohlcv;
          v1 = enc v
      in case res of
           Tuple2 s f \<Rightarrow> variant_loop func enc ohlcv vs self1 (AList.update v1 s signals) f
         | OtherIterable \<Rightarrow> (self1, Inl ValueError)
         | NotIterable x \<Rightarrow>
             variant_loop func enc ohlcv vs self1 (AList.update v1 (ScalarCell x) signals)
               fig_data)"

text \<open>
  Lines 120 to 127. \<open>pd.DataFrame(signals)\<close> keeps the columns in the order of the dict
  and raises \<open>ValueError\<close> when the dict is not empty and all its values are scalars.
  Then the column keys are decoded (\<open>dec\<close> is \<open>eval\<close>), the level names are the keys of
  the first decoded column, and each column's tuple holds its decoded value for every
  level name. pandas builds no column index without a level.
\<close>

fun lookup_all :: "'v dict \<Rightarrow> string list \<Rightarrow> 'v list option" where
  "lookup_all d [] = Some []"
| "lookup_all d (p # ps) =
     (case map_of d p of
        None \<Rightarrow> None
      | Some v \<Rightarrow> (case lookup_all d ps of None \<Rightarrow> None | Some vs \<Rightarrow> Some (v # vs)))"

definition relabel ::
  "('k \<Rightarrow> 'v dict) \<Rightarrow> ('k \<times> ('s, 'x) cell) list \<Rightarrow> error + ('v, ('s, 'x) cell) table" where
  "relabel dec signals =
     (case signals of
        [] \<Rightarrow> Inl IndexError
      | (k0, c0) # rest \<Rightarrow>
          if list_all (\<lambda>(k, c). is_scalar c) signals then Inl ValueError
          else
          (let param_names = map fst (dec k0) in
           case those (map (\<lambda>(k, c). map_option (\<lambda>l. (l, c)) (lookup_all (dec k) param_names))
                           signals) of
             None \<Rightarrow> Inl KeyError
           | Some cs \<Rightarrow>
               if param_names = [] then Inl LibraryError
               else Inr \<lparr>names = param_names, cols = cs\<rparr>))"

text \<open>Lines 102 to 104: the enumeration with its fallback to the default parameters.\<close>

definition filter_variable_enumerate ::
  "'v dict \<Rightarrow> 'v parameter_spec \<Rightarrow> error + 'v dict list" where
  "filter_variable_enumerate default_parameters variables =
     (case enumerate_variables variables of
        Inl e \<Rightarrow> Inl e
      | Inr variable_enumerate \<Rightarrow>
          if length variable_enumerate = 0 then Inr (variable_enumerate @ [default_parameters])
          else Inr variable_enumerate)"

definition ret_f ::
  "('v filter_instance \<Rightarrow> 'o \<Rightarrow> ('s, 'x, 'a fig_bundle) results) \<Rightarrow> ('v dict \<Rightarrow> 'k) \<Rightarrow>
   ('k \<Rightarrow> 'v dict) \<Rightarrow> 'v dict \<Rightarrow> 'v parameter_spec \<Rightarrow> 'v filter_instance \<Rightarrow> 'o \<Rightarrow>
   'v filter_instance \<times> (error + ('v, ('s, 'x) cell) table \<times> 'a fig_bundle)" where
  "ret_f func enc dec default_parameters variables self ohlcv =
     (case filter_variable_enumerate default_parameters variables of
        Inl e \<Rightarrow> (self, Inl e)
      | Inr variable_enumerate \<Rightarrow>
          (case variant_loop func enc ohlcv variable_enumerate self [] [] of
             (self1, Inl e) \<Rightarrow> (self1, Inl e)
           | (self1, Inr (signals, fig_data)) \<Rightarrow>
               (case relabel dec signals of
                  Inl e \<Rightarrow> (self1, Inl e)
                | Inr t \<Rightarrow> (self1, Inr (t, fig_data)))))"

section \<open>Composition of a strategy with filters\<close>

text \<open>
  A column of a signal table is a pandas Series of booleans: the row index with one value
  per row.
\<close>

type_synonym 'i series = "('i \<times> bool) list"

definition series_and :: "'i series \<Rightarrow> 'i series \<Rightarrow> 'i series" where
  "series_and a b = map (\<lambda>((i, x), (j, y)). (i, x \<and> y)) (zip a b)"

text \<open>
  The vectorbt accessor calls of \<open>_add_filters\<close>, by their documented behaviour:
  \<open>tile(n)\<close> lays the whole block of columns out \<open>n\<close> times, \<open>repeat(n)\<close> repeats
  each column \<open>n\<close> times in place, and \<open>&\<close> combines two frames of the same shape
  column by column, stacking the levels of the left column index before those of the
  right one; it raises when the row indices differ (strict index policy).
\<close>

definition tile :: "nat \<Rightarrow> ('v, 'c) table \<Rightarrow> ('v, 'c) table" where
  "tile n t = t\<lparr>cols := concat (replicate n (cols t))\<rparr>"

definition repeat :: "nat \<Rightarrow> ('v, 'c) table \<Rightarrow> ('v, 'c) table" where
  "repeat n t = t\<lparr>cols := concat (map (replicate n) (cols t))\<rparr>"

definition vbt_and ::
  "('v, 'i series) table \<Rightarrow> ('v, 'i series) table \<Rightarrow> error + ('v, 'i series) table" where
  "vbt_and a b =
     (if length (cols a) \<noteq> length (cols b) then Inl LibraryError
      else if \<not> list_all (\<lambda>((la, ca), (lb, cb)). map fst ca = map fst cb) (zip (cols a) (cols b))
      then Inl LibraryError
      else Inr \<lparr>names = names a @ names b,
                cols = map (\<lambda>((la, ca), (lb, cb)). (la @ lb, series_and ca cb))
                           (zip (cols a) (cols b))\<rparr>)"

text \<open>\<open>exits.columns = entries.columns\<close>: pandas refuses a column index of another length.\<close>

definition set_columns ::
  "('v, 'c) table \<Rightarrow> ('v, 'c) table \<Rightarrow> error + ('v, 'c) table" where
  "set_columns exits entries =
     (if length (cols exits) \<noteq> length (cols entries) then Inl LibraryError
      else Inr \<lparr>names = names entries,
                cols = zip (map fst (cols entries)) (map snd (cols exits))\<rparr>)"

text \<open>
  Lines 264 to 274, for one category (\<open>'figures'\<close> or \<open>'overlaps'\<close>): the category is
  created in \<open>fig_data\<close> when absent, then every artifact of the filter is stored under
  the filter's name, an underscore and the artifact's name (\<open>fname+'_'+name\<close>, which is
  also how line 258 renames the levels of the filter's columns).
\<close>

definition prefixed :: "string \<Rightarrow> string \<Rightarrow> string" where
  "prefixed fname name = fname @ ''_'' @ name"

definition merge_category ::
  "string \<Rightarrow> string \<Rightarrow> 'a fig_bundle \<Rightarrow> 'a fig_bundle \<Rightarrow> 'a fig_bundle" where
  "merge_category cat fname filter_figures fig_data =
     (case map_of filter_figures cat of
        None \<Rightarrow> fig_data
      | Some figs \<Rightarrow>
          (let fig_data1 = (case map_of fig_data cat of
                              None \<Rightarrow> AList.update cat [] fig_data
                            | Some d \<Rightarrow> fig_data)
           in fold (\<lambda>(name, fig). AList.map_entry cat (AList.update (prefixed fname name) fig))
                   figs fig_data1))"

definition merge_figures ::
  "string \<Rightarrow> 'a fig_bundle option \<Rightarrow> 'a fig_bundle \<Rightarrow> 'a fig_bundle" where
  "merge_figures fname filter_figures fig_data =
     (case filter_figures of
        None \<Rightarrow> fig_data
      | Some ff \<Rightarrow> merge_category ''overlaps'' fname ff (merge_category ''figures'' fname ff fig_data))"

text \<open>One iteration of the loop of \<open>_add_filters\<close> (lines 258 to 274).\<close>

definition add_filter ::
  "string \<Rightarrow> ('v, 'i series) table \<Rightarrow> 'a fig_bundle option \<Rightarrow>
   ('v, 'i series) table \<Rightarrow> ('v, 'i series) table \<Rightarrow> 'a fig_bundle \<Rightarrow>
   error + ('v, 'i series) table \<times> ('v, 'i series) table \<times> 'a fig_bundle" where
  "add_filter fname filter_df0 filter_figures entries exits fig_data =
     (let filter_df = filter_df0\<lparr>names := map (prefixed fname) (names filter_df0)\<rparr> in
      case vbt_and (tile (length (cols entries)) filter_df)
                   (repeat (length (cols filter_df)) entries) of
        Inl e \<Rightarrow> Inl e
      | Inr entries1 \<Rightarrow>
          (case set_columns (repeat (length (cols filter_df)) exits) entries1 of
             Inl e \<Rightarrow> Inl e
           | Inr exits1 \<Rightarrow> Inr (entries1, exits1, merge_figures fname filter_figures fig_data)))"

fun add_filters ::
  "('v, 'i series) table \<Rightarrow> ('v, 'i series) table \<Rightarrow> 'a fig_bundle \<Rightarrow>
   (string \<times> ('v, 'i series) table \<times> 'a fig_bundle option) list \<Rightarrow>
   error + ('v, 'i series) table \<times> ('v, 'i series) table \<times> 'a fig_bundle" where
  "add_filters entries exits fig_data [] = Inr (entries, exits, fig_data)"
| "add_filters entries exits fig_data ((fname, filter_df, filter_figures) # rest) =
     (case add_filter fname filter_df filter_figures entries exits fig_data of
        Inl e \<Rightarrow> Inl e
      | Inr (entries1, exits1, fig_data1) \<Rightarrow> add_filters entries1 exits1 fig_data1 rest)"

section \<open>Strategy.backtest\<close>

text \<open>
  The caller's \<open>variables\<close> dict is an object that \<open>backtest\<close> could change in
  place, so the dicts live in a store: an address is a position in the list, and
  \<open>copy.copy\<close> allocates a new dict with the same items at the next free address.
\<close>

type_synonym 'x heap = "'x dict list"

definition copy_copy :: "'x heap \<Rightarrow> nat \<Rightarrow> 'x heap \<times> nat" where
  "copy_copy h a = (h @ [h ! a], length h)"

definition exit_vars :: "string list" where
  "exit_vars = [''sl_stop'', ''ts_stop'', ''tp_stop'']"

text \<open>
  Lines 360 to 363: \<open>variables\<close> and \<open>variables_without_stop\<close> are addresses;
  \<open>variables[e]\<close> reads the caller's dict, \<open>pop\<close> changes the copy in place.
\<close>

fun pop_stops ::
  "string list \<Rightarrow> nat \<Rightarrow> nat \<Rightarrow> 'x heap \<Rightarrow> 'x dict \<Rightarrow> error + 'x heap \<times> 'x dict" where
  "pop_stops [] variables variables_without_stop h stop_vars = Inr (h, stop_vars)"
| "pop_stops (e # es) variables variables_without_stop h stop_vars =
     (if map_of (h ! variables_without_stop) e \<noteq> None then
        (case map_of (h ! variables) e of
           None \<Rightarrow> Inl KeyError
         | Some x \<Rightarrow>
             pop_stops es variables variables_without_stop
               (h[variables_without_stop := AList.delete e (h ! variables_without_stop)])
               (AList.update e x stop_vars))
      else pop_stops es variables variables_without_stop h stop_vars)"

text \<open>
  \<open>ohlcv.iloc[-lookback:] if lookback else ohlcv\<close>, on the rows of the price table:
  Python's slice from a start position, which counts from the end when negative and is
  clamped to the table.
\<close>

definition iloc_from :: "int \<Rightarrow> 'r list \<Rightarrow> 'r list" where
  "iloc_from start xs =
     (let n = int (length xs);
          s = (if start < 0 then max 0 (n + start) else min start n)
      in drop (nat s) xs)"

definition lookback_rows :: "int option \<Rightarrow> 'r list \<Rightarrow> 'r list" where
  "lookback_rows lookback ohlcv =
     (case lookback of
        None \<Rightarrow> ohlcv
      | Some l \<Rightarrow> if l \<noteq> 0 then iloc_from (- l) ohlcv else ohlcv)"

text \<open>
  What \<open>backtest\<close> calls outside the sources. \<open>enumerate_signal\<close> and
  \<open>stop_early\<close> come from \<open>finlab_crypto.utility\<close>, \<open>squeeze\<close> from pandas and
  \<open>from_signals\<close> is \<open>vbt.Portfolio.from_signals\<close> on the close prices with
  \<open>fillna(False)\<close> applied to both signals. Each may raise. None of them is given the
  caller's \<open>variables\<close> object. \<open>enumerate_signal\<close> is given the strategy instance;
  what it does to the instance is not used by \<open>backtest\<close> afterwards.
\<close>

record ('r, 'v, 'i, 'a, 'q, 'p) collaborators =
  enumerate_signal ::
    "'r list \<Rightarrow> 'v filter_instance \<Rightarrow> 'v dict list \<Rightarrow>
     error + ('v, 'i series) table \<times> ('v, 'i series) table \<times> 'a fig_bundle"
  stop_early ::
    "'r list \<Rightarrow> ('v, 'i series) table \<Rightarrow> ('v, 'i series) table \<Rightarrow> 'v candidates dict \<Rightarrow>
     error + ('v, 'i series) table \<times> ('v, 'i series) table"
  squeeze :: "('v, 'i series) table \<Rightarrow> 'q"
  from_signals :: "'r list \<Rightarrow> 'q \<Rightarrow> 'q \<Rightarrow> error + 'p"

text \<open>Lines 367 to 370.\<close>

definition strategy_variable_enumerate ::
  "'v dict \<Rightarrow> 'v parameter_spec \<Rightarrow> error + 'v dict list" where
  "strategy_variable_enumerate default_parameters variables_without_stop =
     (case enumerate_variables variables_without_stop of
        Inl e \<Rightarrow> Inl e
      | Inr variable_enumerate \<Rightarrow>
          if variable_enumerate = [] then Inr [default_parameters] else Inr variable_enumerate)"

text \<open>\<open>_enumerate_filters\<close>: every filter is run on the price table.\<close>

fun enumerate_filters ::
  "'r list \<Rightarrow> (string \<times> ('r list \<Rightarrow> error + 'x)) list \<Rightarrow> (string \<times> 'x) list \<Rightarrow>
   error + (string \<times> 'x) list" where
  "enumerate_filters ohlcv [] ret = Inr ret"
| "enumerate_filters ohlcv ((fname, f) # rest) ret =
     (case f ohlcv of
        Inl e \<Rightarrow> Inl e
      | Inr r \<Rightarrow> enumerate_filters ohlcv rest (AList.update fname r ret))"

definition add_stops ::
  "('r, 'v, 'i, 'a, 'q, 'p) collaborators \<Rightarrow> 'r list \<Rightarrow> ('v, 'i series) table \<Rightarrow>
   ('v, 'i series) table \<Rightarrow> 'v candidates dict \<Rightarrow> error + 'q \<times> 'q" where
  "add_stops collab ohlcv entries exits variables =
     (case stop_early collab ohlcv entries exits variables of
        Inl e \<Rightarrow> Inl e
      | Inr (entries1, exits1) \<Rightarrow> Inr (squeeze collab entries1, squeeze collab exits1))"

text \<open>Lines 365 to 378, once the stop parameters are split off.\<close>

definition signal_stage ::
  "('r, 'v, 'i, 'a, 'q, 'p) collaborators \<Rightarrow> 'v dict \<Rightarrow> 'v filter_instance \<Rightarrow> 'r list \<Rightarrow>
   'v parameter_spec \<Rightarrow> 'v candidates dict \<Rightarrow>
   (string \<times> ('r list \<Rightarrow> error + ('v, 'i series) table \<times> 'a fig_bundle option)) list \<Rightarrow>
   error + 'q \<times> 'q \<times> 'a fig_bundle" where
  "signal_stage collab default_parameters self ohlcv_lookback variables_without_stop
                stop_vars filters =
     (case strategy_variable_enumerate default_parameters variables_without_stop of
        Inl e \<Rightarrow> Inl e
      | Inr variable_enumerate \<Rightarrow>
     (case enumerate_signal collab ohlcv_lookback self variable_enumerate of
        Inl e \<Rightarrow> Inl e
      | Inr (entries, exits, fig_data) \<Rightarrow>
     (case (if filters \<noteq> [] then
              (case enumerate_filters ohlcv_lookback filters [] of
                 Inl e \<Rightarrow> Inl e
               | Inr filter_signals \<Rightarrow> add_filters entries exits fig_data filter_signals)
            else Inr (entries, exits, fig_data)) of
        Inl e \<Rightarrow> Inl e
      | Inr (entries1, exits1, fig_data1) \<Rightarrow>
     (case add_stops collab ohlcv_lookback entries1 exits1 stop_vars of
        Inl e \<Rightarrow> Inl e
      | Inr (entries2, exits2) \<Rightarrow> Inr (entries2, exits2, fig_data1)))))"

text \<open>
  What \<open>backtest\<close> returns: the signals when \<open>signals\<close> is true, the simulator's
  portfolio otherwise. The plotting after line 393 changes neither, and is left out.
\<close>

datatype ('q, 'a, 'p) outcome = Signals 'q 'q "'a fig_bundle" | Portfolio 'p

definition side_check ::
  "('r, 'v, 'i, 'a, 'q, 'p) collaborators \<Rightarrow> 'r list \<Rightarrow> string \<Rightarrow> 'q \<Rightarrow> 'q \<Rightarrow>
   error + ('q, 'a, 'p) outcome" where
  "side_check collab ohlcv_lookback side entries exits =
     (if side = ''long'' then
        (case from_signals collab ohlcv_lookback entries exits of
           Inl e \<Rightarrow> Inl e
         | Inr portfolio \<Rightarrow> Inr (Portfolio portfolio))
      else if side = ''short'' then Inl (Exception ''Shorting is not support yet'')
      else Inl (Exception (''side should be '' @ [CHR 0x27] @ ''long'' @ [CHR 0x27] @ '' or ''
                           @ [CHR 0x27] @ ''short'' @ [CHR 0x27])))"

definition backtest ::
  "('r, 'v, 'i, 'a, 'q, 'p) collaborators \<Rightarrow> 'v dict \<Rightarrow> 'v filter_instance \<Rightarrow>
   'v candidates heap \<Rightarrow> 'r list \<Rightarrow> nat \<Rightarrow>
   (string \<times> ('r list \<Rightarrow> error + ('v, 'i series) table \<times> 'a fig_bundle option)) list \<Rightarrow>
   int option \<Rightarrow> bool \<Rightarrow> string \<Rightarrow>
   'v candidates heap \<times> (error + ('q, 'a, 'p) outcome)" where
  "backtest collab default_parameters self h ohlcv variables filters lookback signals side =
     (let (h1, variables_without_stop) = copy_copy h variables in
      case pop_stops exit_vars variables variables_without_stop h1 [] of
        Inl e \<Rightarrow> (h1, Inl e)
      | Inr (h2, stop_vars) \<Rightarrow>
          (let ohlcv_lookback = lookback_rows lookback ohlcv in
           case signal_stage collab default_parameters self ohlcv_lookback
                  (h2 ! variables_without_stop) stop_vars filters of
             Inl e \<Rightarrow> (h2, Inl e)
           | Inr (entries, exits, fig_data) \<Rightarrow>
               if signals then (h2, Inr (Signals entries exits fig_data))
               else (h2, side_check collab ohlcv_lookback side entries exits)))"

section \<open>Concrete inputs and vocabulary of the properties\<close>

text \<open>All artifacts held by a bundle, whatever their category and name.\<close>

definition artifacts :: "'a fig_bundle \<Rightarrow> 'a list" where
  "artifacts b = concat (map (\<lambda>(cat, d). map snd d) b)"

text \<open>
  A user filter function for concrete runs: its signal is one row, its diagnostics hold
  the current value of the attribute \<open>timeperiod\<close> under \<open>figures\<close>, \<open>x\<close>.
\<close>

definition probe_func ::
  "int filter_instance \<Rightarrow> unit \<Rightarrow> ((nat \<times> bool) list, bool, int fig_bundle) results" where
  "probe_func self ohlcv =
     (case attrs self ''timeperiod'' of
        Some n \<Rightarrow> Tuple2 (SeriesCell [(0, True)]) [(''figures'', [(''x'', n)])]
      | None \<Rightarrow> OtherIterable)"

text \<open>
  Two signal tables of two variants each over the rows 0 and 1, and collaborators for
  concrete runs of \<open>backtest\<close>: the strategy's signals are these tables whatever the
  assignments, no stop changes them, \<open>squeeze\<close> keeps a table as it is and the simulator
  returns the number of entry columns.
\<close>

definition probe_entries :: "(int, nat series) table" where
  "probe_entries = \<lparr>names = [''n''],
     cols = [([1], [(0, True), (1, False)]), ([2], [(0, True), (1, True)])]\<rparr>"

definition probe_exits :: "(int, nat series) table" where
  "probe_exits = \<lparr>names = [''n''],
     cols = [([1], [(0, False), (1, True)]), ([2], [(0, False), (1, False)])]\<rparr>"

definition probe_collab ::
  "(unit, int, nat, int, (int, nat series) table, nat) collaborators" where
  "probe_collab =
     \<lparr>enumerate_signal = (\<lambda>ohlcv self ve. Inr (probe_entries, probe_exits, [])),
      stop_early = (\<lambda>ohlcv entries exits variables. Inr (entries, exits)),
      squeeze = (\<lambda>t. t),
      from_signals = (\<lambda>ohlcv entries exits. Inr (length (cols entries)))\<rparr>"

text \<open>
  Vocabulary for the tables: the column labels of a table, a table whose columns all
  lie on the row index \<open>idx\<close>, and a table whose labels are pairwise distinct and have
  one value per level name (what a pandas MultiIndex built from a dict of assignments is).
\<close>

definition labels :: "('v, 'c) table \<Rightarrow> 'v list list" where
  "labels t = map fst (cols t)"

definition on_index :: "'i list \<Rightarrow> ('v, 'i series) table \<Rightarrow> bool" where
  "on_index idx t = list_all (\<lambda>(l, c). map fst c = idx) (cols t)"

definition well_labelled :: "('v, 'c) table \<Rightarrow> bool" where
  "well_labelled t =
     (distinct (labels t) \<and> list_all (\<lambda>l. length l = length (names t)) (labels t))"

text \<open>The artifact stored in a bundle under a category and a name, if any.\<close>

definition artifact_at :: "'a fig_bundle \<Rightarrow> string \<Rightarrow> string \<Rightarrow> 'a option" where
  "artifact_at b cat name = (case map_of b cat of None \<Rightarrow> None | Some d \<Rightarrow> map_of d name)"

text \<open>A filter's signal table of two variants over the rows 0 and 1.\<close>

definition probe_filter :: "(int, nat series) table" where
  "probe_filter = \<lparr>names = [''timeperiod''],
     cols = [([10], [(0, True), (1, True)]), ([20], [(0, False), (1, True)])]\<rparr>"

section \<open>The variant loop of Filter.create\<close>

lemma variant_loop_state:
  "variant_loop func enc ohlcv vs self sig fd = (self', Inr r)
   \<Longrightarrow> self' = fold (\<lambda>v s. set_parameters s v) vs self"
  by (induction vs arbitrary: self sig fd) (auto simp: Let_def split: results.splits)

lemma variant_loop_last:
  "variant_loop func enc ohlcv vs self sig fd = (self', Inr (sig', fd')) \<Longrightarrow> vs \<noteq> []
   \<Longrightarrow> func self' ohlcv = Tuple2 s f \<Longrightarrow> fd' = f"
proof (induction vs arbitrary: self sig fd)
  case Nil
  then show ?case by simp
next
  case (Cons v vs)
  show ?case
  proof (cases "vs = []")
    case True
    with Cons.prems show ?thesis by (auto simp: Let_def split: results.splits)
  next
    case False
    with Cons.prems Cons.IH show ?thesis by (auto simp: Let_def split: results.splits)
  qed
qed

lemma filter_variable_enumerate_nonempty:
  "filter_variable_enumerate dp variables = Inr ve \<Longrightarrow> ve \<noteq> []"
  by (auto simp: filter_variable_enumerate_def split: sum.splits if_splits)

lemma ret_f_loop:
  assumes "ret_f func enc dec dp variables self ohlcv = (self', Inr (t, fig_data))"
  shows "\<exists>ve sig. filter_variable_enumerate dp variables = Inr ve
          \<and> variant_loop func enc ohlcv ve self [] [] = (self', Inr (sig, fig_data))"
  using assms by (auto simp: ret_f_def split: sum.splits prod.splits)

lemma attrs_set_parameters:
  "attrs (set_parameters s v) = fold (\<lambda>(k, x) m. m(k \<mapsto> x)) v (attrs s)"
proof -
  have "attrs (fold (\<lambda>(key, val) s. s\<lparr>attrs := (attrs s)(key \<mapsto> val)\<rparr>) v s)
        = fold (\<lambda>(k, x) m. m(k \<mapsto> x)) v (attrs s)" for s :: "'a filter_instance"
    by (induction v arbitrary: s) auto
  then show ?thesis by (simp add: set_parameters_def Let_def)
qed

lemma attrs_fold_set_parameters:
  "attrs (fold (\<lambda>v s. set_parameters s v) ve self)
     = fold (\<lambda>(k, x) m. m(k \<mapsto> x)) (concat ve) (attrs self)"
  by (induction ve arbitrary: self) (simp_all add: attrs_set_parameters)

lemma variables_attr_fold_set_parameters:
  "ve \<noteq> [] \<Longrightarrow> variables_attr (fold (\<lambda>v s. set_parameters s v) ve self) = Some (last ve)"
proof (induction ve arbitrary: self)
  case Nil
  then show ?case by simp
next
  case (Cons v ve)
  then show ?case by (cases "ve = []") (simp_all add: set_parameters_def Let_def)
qed

lemma probe_run:
  "ret_f probe_func id id [(''timeperiod'', 20)] [(''timeperiod'', Sweep [10, 60])]
         (init [(''timeperiod'', 20)]) ()
   = (set_parameters (init [(''timeperiod'', 20)]) [(''timeperiod'', 60)],
      Inr (\<lparr>names = [''timeperiod''], cols = [([10], SeriesCell [(0, True)]), ([60], SeriesCell [(0, True)])]\<rparr>,
           [(''figures'', [(''x'', 60)])]))"
  by (simp add: ret_f_def filter_variable_enumerate_def enumerate_variables_def init_def
      set_parameters_def probe_func_def relabel_def Let_def)

lemma probe_enumerate:
  "filter_variable_enumerate [(''timeperiod'', 20::int)] [(''timeperiod'', Sweep [10, 60])]
   = Inr [[(''timeperiod'', 10)], [(''timeperiod'', 60)]]"
  by (simp add: filter_variable_enumerate_def enumerate_variables_def)

lemma probe_last:
  "probe_func (set_parameters (init [(''timeperiod'', 20)]) [(''timeperiod'', 60)]) ()
     = Tuple2 (SeriesCell [(0, True)]) [(''figures'', [(''x'', 60)])]"
  by (simp add: init_def set_parameters_def probe_func_def Let_def)

lemma probe_first:
  "probe_func (set_parameters (init [(''timeperiod'', 20)]) [(''timeperiod'', 10)]) ()
     = Tuple2 (SeriesCell [(0, True)]) [(''figures'', [(''x'', 10)])]"
  by (simp add: init_def set_parameters_def probe_func_def Let_def)

text \<open>
  C7. With an empty parameter spec the enumeration, in \<open>Filter.create\<close> as in
  \<open>Strategy.backtest\<close>, is exactly the one assignment of the default parameters, never
  the empty list, and one combination is run. \<open>ret_f\<close> sets the default parameters on
  the instance, calls the user function once and builds its one column, or raises
  \<open>ValueError\<close> on a result that does not unpack or is not iterable, as lines 116 and
  120 do. In \<open>backtest\<close>, called with a
  \<open>variables\<close> dict that is empty, the signals are computed by \<open>enumerate_signal\<close> on
  the list of that one assignment.
\<close>

theorem empty_spec_falls_back_to_defaults:
  assumes "h ! variables = []"
  shows "filter_variable_enumerate dp ([] :: 'v parameter_spec) = Inr [dp]
   \<and> strategy_variable_enumerate dp ([] :: 'v parameter_spec) = Inr [dp]
   \<and> ret_f func enc dec dp [] self ohlcv
     = (case func (set_parameters self dp) ohlcv of
          Tuple2 c f \<Rightarrow>
            (set_parameters self dp,
             case relabel dec [(enc dp, c)] of Inl e \<Rightarrow> Inl e | Inr t \<Rightarrow> Inr (t, f))
        | OtherIterable \<Rightarrow> (set_parameters self dp, Inl ValueError)
        | NotIterable x \<Rightarrow> (set_parameters self dp, Inl ValueError))
   \<and> signal_stage collab dp self rows [] stop_vars filters
     = (case enumerate_signal collab rows self [dp] of
          Inl e \<Rightarrow> Inl e
        | Inr (entries, exits, fig_data) \<Rightarrow>
            (case (if filters \<noteq> [] then
                     (case enumerate_filters rows filters [] of
                        Inl e \<Rightarrow> Inl e
                      | Inr filter_signals \<Rightarrow> add_filters entries exits fig_data filter_signals)
                   else Inr (entries, exits, fig_data)) of
               Inl e \<Rightarrow> Inl e
             | Inr (entries1, exits1, fig_data1) \<Rightarrow>
                 (case add_stops collab rows entries1 exits1 stop_vars of
                    Inl e \<Rightarrow> Inl e
                  | Inr (entries2, exits2) \<Rightarrow> Inr (entries2, exits2, fig_data1))))
   \<and> backtest collab dp self h rows variables filters lookback signals side
     = (h @ [[]],
        case signal_stage collab dp self (lookback_rows lookback rows) [] [] filters of
          Inl e \<Rightarrow> Inl e
        | Inr (entries, exits, fig_data) \<Rightarrow>
            if signals then Inr (Signals entries exits fig_data)
            else side_check collab (lookback_rows lookback rows) side entries exits)"
proof (intro conjI)
  show "filter_variable_enumerate dp ([] :: 'v parameter_spec) = Inr [dp]"
    by (simp add: filter_variable_enumerate_def enumerate_variables_def)
  show sve: "strategy_variable_enumerate dp ([] :: 'v parameter_spec) = Inr [dp]"
    by (simp add: strategy_variable_enumerate_def enumerate_variables_def)
  show "ret_f func enc dec dp [] self ohlcv
     = (case func (set_parameters self dp) ohlcv of
          Tuple2 c f \<Rightarrow>
            (set_parameters self dp,
             case relabel dec [(enc dp, c)] of Inl e \<Rightarrow> Inl e | Inr t \<Rightarrow> Inr (t, f))
        | OtherIterable \<Rightarrow> (set_parameters self dp, Inl ValueError)
        | NotIterable x \<Rightarrow> (set_parameters self dp, Inl ValueError))"
    by (simp add: filter_variable_enumerate_def enumerate_variables_def ret_f_def relabel_def
        Let_def split: results.splits sum.splits prod.splits)
  show "signal_stage collab dp self rows [] stop_vars filters
     = (case enumerate_signal collab rows self [dp] of
          Inl e \<Rightarrow> Inl e
        | Inr (entries, exits, fig_data) \<Rightarrow>
            (case (if filters \<noteq> [] then
                     (case enumerate_filters rows filters [] of
                        Inl e \<Rightarrow> Inl e
                      | Inr filter_signals \<Rightarrow> add_filters entries exits fig_data filter_signals)
                   else Inr (entries, exits, fig_data)) of
               Inl e \<Rightarrow> Inl e
             | Inr (entries1, exits1, fig_data1) \<Rightarrow>
                 (case add_stops collab rows entries1 exits1 stop_vars of
                    Inl e \<Rightarrow> Inl e
                  | Inr (entries2, exits2) \<Rightarrow> Inr (entries2, exits2, fig_data1))))"
    unfolding signal_stage_def sve by simp
  have pop: "pop_stops exit_vars variables (length h) (h @ [[]]) [] = Inr (h @ [[]], [])"
    by (simp add: exit_vars_def)
  show "backtest collab dp self h rows variables filters lookback signals side
     = (h @ [[]],
        case signal_stage collab dp self (lookback_rows lookback rows) [] [] filters of
          Inl e \<Rightarrow> Inl e
        | Inr (entries, exits, fig_data) \<Rightarrow>
            if signals then Inr (Signals entries exits fig_data)
            else side_check collab (lookback_rows lookback rows) side entries exits)"
    using assms pop
    by (simp add: backtest_def copy_copy_def Let_def split: sum.splits prod.splits)
qed

lemma probe_signal_stage:
  "signal_stage probe_collab [(''n'', 1)] (init [(''n'', 1)]) [] [] [] []
   = Inr (probe_entries, probe_exits, [])"
  by (simp add: signal_stage_def strategy_variable_enumerate_def enumerate_variables_def
      add_stops_def probe_collab_def)

theorem empty_spec_falls_back_to_defaults_witness:
  "[[]] ! 0 = ([] :: int candidates dict)
   \<and> strategy_variable_enumerate [(''n'', 1::int)] [] = Inr [[(''n'', 1)]]
   \<and> enumerate_signal probe_collab [] (init [(''n'', 1)]) [[(''n'', 1)]]
     = Inr (probe_entries, probe_exits, [])
   \<and> backtest probe_collab [(''n'', 1)] (init [(''n'', 1)]) [[]] [] 0 [] None True ''long''
     = ([[], []], Inr (Signals probe_entries probe_exits []))"
proof -
  have h: "[[]] ! 0 = ([] :: int candidates dict)" by simp
  note t = empty_spec_falls_back_to_defaults [OF h, where dp = "[(''n'', 1)]"
      and func = probe_func and enc = id and dec = id and self = "init [(''n'', 1)]"
      and ohlcv = "()" and collab = probe_collab and rows = "[]" and stop_vars = "[]"
      and filters = "[]" and lookback = None and signals = True and side = "''long''"]
  from t have a: "strategy_variable_enumerate [(''n'', 1::int)] [] = Inr [[(''n'', 1)]]" by blast
  have b: "enumerate_signal probe_collab [] (init [(''n'', 1)]) [[(''n'', 1)]]
     = Inr (probe_entries, probe_exits, [])"
    by (simp add: probe_collab_def)
  from t have "backtest probe_collab [(''n'', 1)] (init [(''n'', 1)]) [[]] [] 0 [] None True ''long''
     = ([[]] @ [[]],
        case signal_stage probe_collab [(''n'', 1)] (init [(''n'', 1)]) (lookback_rows None []) [] [] [] of
          Inl e \<Rightarrow> Inl e
        | Inr (entries, exits, fig_data) \<Rightarrow>
            if True then Inr (Signals entries exits fig_data)
            else side_check probe_collab (lookback_rows None []) ''long'' entries exits)"
    by blast
  then have c: "backtest probe_collab [(''n'', 1)] (init [(''n'', 1)]) [[]] [] 0 [] None True ''long''
     = ([[], []], Inr (Signals probe_entries probe_exits []))"
    by (simp add: lookback_rows_def probe_signal_stage)
  from h a b c show ?thesis by blast
qed

text \<open>
  C2, as the code has it. The bundle that \<open>ret_f\<close> returns is the bundle of the last
  variant run, when that variant returned one: every variant's bundle replaces the one
  before, and nothing is merged.
\<close>

theorem ret_f_returns_last_bundle:
  assumes "ret_f func enc dec dp variables self ohlcv = (self', Inr (t, fig_data))"
    and "func self' ohlcv = Tuple2 s f"
  shows "fig_data = f"
proof -
  from ret_f_loop [OF assms(1)] obtain ve sig where
    ve: "filter_variable_enumerate dp variables = Inr ve" and
    loop: "variant_loop func enc ohlcv ve self [] [] = (self', Inr (sig, fig_data))" by blast
  from filter_variable_enumerate_nonempty [OF ve] have "ve \<noteq> []" .
  from variant_loop_last [OF loop this assms(2)] show ?thesis .
qed

theorem ret_f_returns_last_bundle_witness:
  "ret_f probe_func id id [(''timeperiod'', 20)] [(''timeperiod'', Sweep [10, 60])]
         (init [(''timeperiod'', 20)]) ()
   = (set_parameters (init [(''timeperiod'', 20)]) [(''timeperiod'', 60)],
      Inr (\<lparr>names = [''timeperiod''], cols = [([10], SeriesCell [(0, True)]), ([60], SeriesCell [(0, True)])]\<rparr>,
           [(''figures'', [(''x'', 60)])]))
   \<and> probe_func (set_parameters (init [(''timeperiod'', 20)]) [(''timeperiod'', 60)]) ()
     = Tuple2 (SeriesCell [(0, True)]) [(''figures'', [(''x'', 60)])]
   \<and> [(''figures'', [(''x'', 60::int)])] = [(''figures'', [(''x'', 60)])]"
proof (intro conjI)
  show "[(''figures'', [(''x'', 60::int)])] = [(''figures'', [(''x'', 60)])]"
    by (rule ret_f_returns_last_bundle [where func = probe_func and ohlcv = "()"
          and self' = "set_parameters (init [(''timeperiod'', 20)]) [(''timeperiod'', 60)]",
          OF probe_run probe_last])
qed (rule probe_run, rule probe_last)

text \<open>
  C2, as stated, fails: in a sweep of two variants that both produce diagnostics, the
  returned bundle is the second variant's, and the artifact of the first variant is not
  in it under any key.
\<close>

theorem ret_f_drops_first_bundle:
  "snd (ret_f probe_func id id [(''timeperiod'', 20)] [(''timeperiod'', Sweep [10, 60])]
          (init [(''timeperiod'', 20)]) ())
     = Inr (\<lparr>names = [''timeperiod''], cols = [([10], SeriesCell [(0, True)]), ([60], SeriesCell [(0, True)])]\<rparr>,
            [(''figures'', [(''x'', 60)])])
   \<and> probe_func (set_parameters (init [(''timeperiod'', 20)]) [(''timeperiod'', 10)]) ()
     = Tuple2 (SeriesCell [(0, True)]) [(''figures'', [(''x'', 10)])]
   \<and> \<not> set (artifacts [(''figures'', [(''x'', 10::int)])])
         \<subseteq> set (artifacts [(''figures'', [(''x'', 60)])])"
proof (intro conjI)
  show "snd (ret_f probe_func id id [(''timeperiod'', 20)] [(''timeperiod'', Sweep [10, 60])]
          (init [(''timeperiod'', 20)]) ())
     = Inr (\<lparr>names = [''timeperiod''], cols = [([10], SeriesCell [(0, True)]), ([60], SeriesCell [(0, True)])]\<rparr>,
            [(''figures'', [(''x'', 60)])])"
    by (simp only: probe_run snd_conv)
  show "probe_func (set_parameters (init [(''timeperiod'', 20)]) [(''timeperiod'', 10)]) ()
     = Tuple2 (SeriesCell [(0, True)]) [(''figures'', [(''x'', 10)])]"
    by (rule probe_first)
  show "\<not> set (artifacts [(''figures'', [(''x'', 10::int)])])
         \<subseteq> set (artifacts [(''figures'', [(''x'', 60)])])"
    by (simp add: artifacts_def)
qed

text \<open>
  C8, as the code has it. When the loop of \<open>ret_f\<close> has completed, the instance is in
  the state that \<open>set_parameters\<close> leaves after it has been applied to every enumerated
  assignment in turn: \<open>_variables\<close> is the last assignment, and every parameter
  attribute holds the value written to it last. The state before the call is not
  restored.
\<close>

theorem ret_f_leaves_last_assignment:
  assumes "filter_variable_enumerate dp variables = Inr ve"
    and "ret_f func enc dec dp variables self ohlcv = (self', Inr r)"
  shows "self' = fold (\<lambda>v s. set_parameters s v) ve self
       \<and> variables_attr self' = Some (last ve)
       \<and> attrs self' = fold (\<lambda>(k, x) m. m(k \<mapsto> x)) (concat ve) (attrs self)"
proof -
  obtain t fd where r: "r = (t, fd)" by (cases r)
  from ret_f_loop [OF assms(2)[unfolded r]] assms(1) obtain sig where
    loop: "variant_loop func enc ohlcv ve self [] [] = (self', Inr (sig, fd))" by auto
  have s: "self' = fold (\<lambda>v s. set_parameters s v) ve self"
    by (rule variant_loop_state [OF loop])
  show ?thesis
    using s variables_attr_fold_set_parameters [OF filter_variable_enumerate_nonempty [OF assms(1)]]
      attrs_fold_set_parameters by simp
qed

theorem ret_f_leaves_last_assignment_witness:
  "filter_variable_enumerate [(''timeperiod'', 20::int)] [(''timeperiod'', Sweep [10, 60])]
   = Inr [[(''timeperiod'', 10)], [(''timeperiod'', 60)]]
   \<and> variables_attr (set_parameters (init [(''timeperiod'', 20::int)]) [(''timeperiod'', 60)])
     = Some (last [[(''timeperiod'', 10)], [(''timeperiod'', 60)]])"
proof (intro conjI)
  show "variables_attr (set_parameters (init [(''timeperiod'', 20::int)]) [(''timeperiod'', 60)])
     = Some (last [[(''timeperiod'', 10)], [(''timeperiod'', 60)]])"
    using ret_f_leaves_last_assignment [OF probe_enumerate probe_run]
    by (rule conjunct1 [OF conjunct2])
qed (rule probe_enumerate)

text \<open>
  C8, as stated, fails: after a sweep over the time periods 10 and 60 on an instance
  created with the default 20, the attribute and \<open>_variables\<close> hold 60, not 20.
\<close>

theorem ret_f_changes_instance:
  "attrs (fst (ret_f probe_func id id [(''timeperiod'', 20)] [(''timeperiod'', Sweep [10, 60])]
                 (init [(''timeperiod'', 20)]) ())) ''timeperiod'' = Some 60
   \<and> variables_attr (fst (ret_f probe_func id id [(''timeperiod'', 20)]
                 [(''timeperiod'', Sweep [10, 60])] (init [(''timeperiod'', 20)]) ()))
     = Some [(''timeperiod'', 60)]
   \<and> attrs (init [(''timeperiod'', 20::int)]) ''timeperiod'' = Some 20
   \<and> variables_attr (init [(''timeperiod'', 20::int)]) = Some [(''timeperiod'', 20)]"
  by (simp add: probe_run) (simp add: init_def set_parameters_def Let_def)

section \<open>Strategy.backtest: the caller's variables, the signals mode and the side\<close>

lemma pop_stops_ok:
  "a \<noteq> b \<Longrightarrow> b < length h \<Longrightarrow> n \<le> b
   \<Longrightarrow> (\<forall>e. map_of (h ! b) e \<noteq> None \<longrightarrow> map_of (h ! a) e \<noteq> None)
   \<Longrightarrow> \<exists>h' sv'. pop_stops es a b h sv = Inr (h', sv') \<and> take n h' = take n h
         \<and> length h' = length h
         \<and> h' ! b = filter (\<lambda>(k, x). k \<notin> set es) (h ! b)"
proof (induction es arbitrary: h sv)
  case Nil
  then show ?case by simp
next
  case (Cons e es)
  show ?case
  proof (cases "map_of (h ! b) e")
    case None
    then have "e \<notin> fst ` set (h ! b)" by (simp add: map_of_eq_None_iff)
    then have eq: "filter (\<lambda>(k, x). k \<notin> set (e # es)) (h ! b)
                 = filter (\<lambda>(k, x). k \<notin> set es) (h ! b)"
      by (intro filter_cong) (auto simp: image_iff)
    from Cons.IH [OF Cons.prems, of sv] None eq show ?thesis by simp
  next
    case (Some y)
    with Cons.prems(4) obtain x where x: "map_of (h ! a) e = Some x" by auto
    let ?h = "h[b := AList.delete e (h ! b)]"
    have inv: "\<forall>k. map_of (?h ! b) k \<noteq> None \<longrightarrow> map_of (?h ! a) k \<noteq> None"
      using Cons.prems by (auto simp: delete_conv')
    have len: "b < length ?h" using Cons.prems by simp
    from Cons.IH [OF Cons.prems(1) len Cons.prems(3) inv, of "AList.update e x sv"]
    obtain h' sv' where r: "pop_stops es a b ?h (AList.update e x sv) = Inr (h', sv')"
      "take n h' = take n ?h" "length h' = length ?h"
      "h' ! b = filter (\<lambda>(k, x). k \<notin> set es) (?h ! b)" by blast
    have "filter (\<lambda>(k, x). k \<notin> set es) (AList.delete e (h ! b))
          = filter (\<lambda>(k, x). k \<notin> set (e # es)) (h ! b)"
      by (auto simp: AList.delete_eq intro: filter_cong)
    with r Some x Cons.prems show ?thesis by simp
  qed
qed

lemma probe_backtest:
  "backtest probe_collab [(''n'', 1)] (init [(''n'', 1)]) [[]] [] 0 [] None True ''short''
   = ([[], []], Inr (Signals probe_entries probe_exits []))"
  by (simp add: backtest_def copy_copy_def exit_vars_def signal_stage_def
      strategy_variable_enumerate_def enumerate_variables_def add_stops_def
      probe_collab_def lookback_rows_def Let_def)

text \<open>
  C9. Whatever the call, every dict that existed before the call, the caller's
  \<open>variables\<close> among them, is the same after it; the stop keys are removed from the
  copy, which is a new object at the next address and ends as \<open>variables\<close> without
  \<open>sl_stop\<close>, \<open>ts_stop\<close> and \<open>tp_stop\<close>.
\<close>

theorem backtest_keeps_variables:
  assumes "variables < length h"
  shows "take (length h)
              (fst (backtest collab dp self h ohlcv variables filters lookback signals side)) = h
    \<and> fst (backtest collab dp self h ohlcv variables filters lookback signals side) ! length h
       = filter (\<lambda>(k, x). k \<notin> set exit_vars) (h ! variables)"
proof -
  let ?h1 = "h @ [h ! variables]"
  have "\<exists>h' sv'. pop_stops exit_vars variables (length h) ?h1 [] = Inr (h', sv')
          \<and> take (length h) h' = take (length h) ?h1 \<and> length h' = length ?h1
          \<and> h' ! length h = filter (\<lambda>(k, x). k \<notin> set exit_vars) (?h1 ! length h)"
    using assms by (intro pop_stops_ok) (auto simp: nth_append)
  then obtain h' sv' where r: "pop_stops exit_vars variables (length h) ?h1 [] = Inr (h', sv')"
    "take (length h) h' = take (length h) ?h1"
    "h' ! length h = filter (\<lambda>(k, x). k \<notin> set exit_vars) (?h1 ! length h)" by blast
  then show ?thesis
    by (simp add: backtest_def copy_copy_def Let_def split: sum.splits prod.splits)
qed

theorem backtest_keeps_variables_witness:
  "(0::nat) < length [[(''sl_stop'', Scalar (1::int)), (''n'', Sweep [1, 2])]]
   \<and> take 1 (fst (backtest probe_collab [(''n'', 1)] (init [(''n'', 1)])
                     [[(''sl_stop'', Scalar 1), (''n'', Sweep [1, 2])]] [] 0 [] None False
                     ''long''))
     = [[(''sl_stop'', Scalar 1), (''n'', Sweep [1, 2])]]
   \<and> fst (backtest probe_collab [(''n'', 1)] (init [(''n'', 1)])
             [[(''sl_stop'', Scalar 1), (''n'', Sweep [1, 2])]] [] 0 [] None False ''long'') ! 1
     = [(''n'', Sweep [1, 2])]"
  using backtest_keeps_variables [of 0 "[[(''sl_stop'', Scalar (1::int)), (''n'', Sweep [1, 2])]]"
      probe_collab "[(''n'', 1)]" "init [(''n'', 1)]" "[]" "[]" None False "''long''"]
  by (simp add: exit_vars_def)

text \<open>
  C10. With \<open>signals=True\<close> the result of \<open>backtest\<close> is the same for every value of
  \<open>side\<close> and for every simulator: the side is not examined and the simulator is not
  called. The result is the signals, or the error of an earlier stage, never a portfolio.
\<close>

theorem signals_mode_ignores_side:
  "backtest collab dp self h ohlcv variables filters lookback True side
    = backtest (collab\<lparr>from_signals := sim\<rparr>) dp self h ohlcv variables filters lookback True side'
   \<and> (case snd (backtest collab dp self h ohlcv variables filters lookback True side) of
        Inl e \<Rightarrow> True
      | Inr (Signals entries exits fig_data) \<Rightarrow> True
      | Inr (Portfolio p) \<Rightarrow> False)"
  by (simp add: backtest_def signal_stage_def add_stops_def Let_def
      split: sum.splits prod.splits)

text \<open>
  C6. Take a call whose stages before the side check succeed, that is, one that returns
  signals when run with \<open>signals=True\<close>. With \<open>signals=False\<close> it fails with
  \<open>UnsupportedSide\<close> when the side is \<open>'short'\<close>, with \<open>InvalidArgumentError\<close> when
  the side is neither \<open>'long'\<close> nor \<open>'short'\<close>, and with \<open>'long'\<close> it raises neither:
  its result is what the simulator returns on the signals.
\<close>

theorem backtest_side_check:
  assumes "backtest collab dp self h ohlcv variables filters lookback True side0
           = (h', Inr (Signals entries exits fig_data))"
  shows "snd (backtest collab dp self h ohlcv variables filters lookback False ''short'')
           = Inl UnsupportedSide
       \<and> (side \<noteq> ''long'' \<and> side \<noteq> ''short'' \<longrightarrow>
            snd (backtest collab dp self h ohlcv variables filters lookback False side)
            = Inl InvalidArgumentError)
       \<and> snd (backtest collab dp self h ohlcv variables filters lookback False ''long'')
           = (case from_signals collab (lookback_rows lookback ohlcv) entries exits of
                Inl e \<Rightarrow> Inl e | Inr portfolio \<Rightarrow> Inr (Portfolio portfolio))"
  using assms
  by (auto simp: backtest_def side_check_def UnsupportedSide_def InvalidArgumentError_def Let_def
      split: sum.splits prod.splits)

theorem backtest_side_check_witness:
  "backtest probe_collab [(''n'', 1)] (init [(''n'', 1)]) [[]] [] 0 [] None True ''short''
   = ([[], []], Inr (Signals probe_entries probe_exits []))
   \<and> snd (backtest probe_collab [(''n'', 1)] (init [(''n'', 1)]) [[]] [] 0 [] None False ''short'')
     = Inl UnsupportedSide
   \<and> ''sideways'' \<noteq> ''long'' \<and> ''sideways'' \<noteq> ''short''
   \<and> snd (backtest probe_collab [(''n'', 1)] (init [(''n'', 1)]) [[]] [] 0 [] None False
             ''sideways'')
     = Inl InvalidArgumentError
   \<and> snd (backtest probe_collab [(''n'', 1)] (init [(''n'', 1)]) [[]] [] 0 [] None False ''long'')
     = Inr (Portfolio 2)"
  using backtest_side_check [OF probe_backtest, of "''sideways''"] probe_backtest
  by (simp add: probe_collab_def probe_entries_def)

section \<open>Composition: columns, labels and diagnostics\<close>

lemma zip_tile_repeat:
  "zip (concat (replicate (length es) fs)) (concat (map (replicate (length fs)) es))
   = map (\<lambda>(e, f). (f, e)) (List.product es fs)"
proof (induction es)
  case Nil
  show ?case by simp
next
  case (Cons e es)
  have "zip fs (replicate (length fs) e) = map (\<lambda>f. (f, e)) fs"
    by (simp add: zip_replicate2)
  with Cons show ?case by (simp add: comp_def)
qed

lemma repeat_product:
  "concat (map (replicate (length fs)) xs) = map fst (List.product xs fs)"
  by (induction xs) (simp_all add: comp_def map_replicate_const)


lemma series_and_nth:
  "length a = length b \<Longrightarrow> r < length a
   \<Longrightarrow> series_and a b ! r = (fst (a ! r), snd (a ! r) \<and> snd (b ! r))"
  by (simp add: series_and_def split_beta)

lemma add_filter_result:
  assumes len: "length (cols exits) = length (cols entries)"
    and idx: "on_index idx entries" "on_index idx filter_df"
  shows "add_filter fname filter_df ff entries exits fd =
     Inr (\<lparr>names = map (prefixed fname) (names filter_df) @ names entries,
           cols = map (\<lambda>(e, f). (fst f @ fst e, series_and (snd f) (snd e)))
                      (List.product (cols entries) (cols filter_df))\<rparr>,
          \<lparr>names = map (prefixed fname) (names filter_df) @ names entries,
           cols = zip (map (\<lambda>(e, f). fst f @ fst e) (List.product (cols entries) (cols filter_df)))
                      (map (\<lambda>(x, f). snd x) (List.product (cols exits) (cols filter_df)))\<rparr>,
          merge_figures fname ff fd)"
proof -
  let ?es = "cols entries" and ?fs = "cols filter_df" and ?xs = "cols exits"
  have z: "zip (concat (replicate (length ?es) ?fs)) (concat (map (replicate (length ?fs)) ?es))
           = map (\<lambda>(e, f). (f, e)) (List.product ?es ?fs)"
    by (rule zip_tile_repeat)
  have l1: "length (concat (replicate (length ?es) ?fs)) = length ?es * length ?fs"
    by (induction "length ?es") (simp_all add: length_concat sum_list_replicate)
  have l2: "length (concat (map (replicate (length ?fs)) ?es)) = length ?es * length ?fs"
    by (simp add: repeat_product)
  have l3: "length (concat (map (replicate (length ?fs)) ?xs)) = length ?es * length ?fs"
    using len by (simp add: repeat_product)
  have ok: "list_all (\<lambda>((la, ca), (lb, cb)). map fst ca = map fst cb)
              (map (\<lambda>(e, f). (f, e)) (List.product ?es ?fs))"
    using idx by (auto simp: on_index_def list_all_iff)
  show ?thesis
    using l1 l2 l3 ok
    by (simp add: add_filter_def vbt_and_def tile_def repeat_def set_columns_def Let_def z
        repeat_product [of ?fs ?xs] comp_def case_prod_unfold)
qed

lemma on_index_length:
  assumes "on_index idx t" "c \<in> set (cols t)"
  shows "length (snd c) = length idx \<and> map fst (snd c) = idx"
proof -
  from assms have m: "map fst (snd c) = idx"
    by (auto simp: on_index_def list_all_iff)
  then have "length (snd c) = length idx" by (metis length_map)
  with m show ?thesis by simp
qed

text \<open>
  C3. For an entries and an exits table of \<open>p\<close> columns each and a filter table of
  \<open>q\<close> columns, entries and filter on the same row index, \<open>_add_filters\<close> with this
  one filter succeeds and yields \<open>p * q\<close> entries columns and \<open>p * q\<close> exits columns.
  Column \<open>n\<close> belongs to strategy variant \<open>n div q\<close> and filter variant \<open>n mod q\<close>,
  so every pair has exactly one column: its entries are the AND of the filter column and
  the strategy's entries column, row by row over the shared index, and its exits are the
  strategy's exits column unchanged.
\<close>

theorem add_filters_product:
  assumes p: "length (cols entries) = p" "length (cols exits) = p"
    and q: "length (cols filter_df) = q"
    and idx: "on_index idx entries" "on_index idx filter_df"
  shows "\<exists>en ex fd.
     add_filters entries exits fig_data [(fname, filter_df, filter_figures)] = Inr (en, ex, fd)
     \<and> length (cols en) = p * q \<and> length (cols ex) = p * q
     \<and> (\<forall>n<p * q.
           snd (cols en ! n) = series_and (snd (cols filter_df ! (n mod q)))
                                          (snd (cols entries ! (n div q)))
         \<and> snd (cols ex ! n) = snd (cols exits ! (n div q))
         \<and> (\<forall>r<length idx.
               snd (cols en ! n) ! r
               = (idx ! r, snd (snd (cols filter_df ! (n mod q)) ! r)
                           \<and> snd (snd (cols entries ! (n div q)) ! r))))"
proof -
  let ?es = "cols entries" and ?fs = "cols filter_df" and ?xs = "cols exits"
  let ?en = "\<lparr>names = map (prefixed fname) (names filter_df) @ names entries,
           cols = map (\<lambda>(e, f). (fst f @ fst e, series_and (snd f) (snd e)))
                      (List.product ?es ?fs)\<rparr>"
  let ?ex = "\<lparr>names = map (prefixed fname) (names filter_df) @ names entries,
           cols = zip (map (\<lambda>(e, f). fst f @ fst e) (List.product ?es ?fs))
                      (map (\<lambda>(x, f). snd x) (List.product ?xs ?fs))\<rparr>"
  have len: "length ?xs = length ?es" using p by simp
  have run: "add_filters entries exits fig_data [(fname, filter_df, filter_figures)]
             = Inr (?en, ?ex, merge_figures fname filter_figures fig_data)"
    by (simp add: add_filter_result [OF len idx])
  have cols: "snd (cols ?en ! n) = series_and (snd (?fs ! (n mod q))) (snd (?es ! (n div q)))
            \<and> snd (cols ?ex ! n) = snd (?xs ! (n div q))
            \<and> (\<forall>r<length idx. snd (cols ?en ! n) ! r
                 = (idx ! r, snd (snd (?fs ! (n mod q)) ! r) \<and> snd (snd (?es ! (n div q)) ! r)))"
    if n: "n < p * q" for n
  proof -
    from n have q0: "0 < q" by (cases q) auto
    then have m: "n mod q < q" by simp
    from n have d: "n div q < p" by (simp add: less_mult_imp_div_less)
    have pe: "List.product ?es ?fs ! n = (?es ! (n div q), ?fs ! (n mod q))"
      using n p q by (simp add: product_nth)
    have px: "List.product ?xs ?fs ! n = (?xs ! (n div q), ?fs ! (n mod q))"
      using n p q by (simp add: product_nth)
    have e: "?es ! (n div q) \<in> set ?es" using d p by simp
    have f: "?fs ! (n mod q) \<in> set ?fs" using m q by simp
    note ie = on_index_length [OF idx(1) e] and "if" = on_index_length [OF idx(2) f]
    have a: "snd (cols ?en ! n) = series_and (snd (?fs ! (n mod q))) (snd (?es ! (n div q)))"
      using n p q pe by simp
    have b: "snd (cols ?ex ! n) = snd (?xs ! (n div q))"
      using n p q px by simp
    have c: "series_and (snd (?fs ! (n mod q))) (snd (?es ! (n div q))) ! r
             = (idx ! r, snd (snd (?fs ! (n mod q)) ! r) \<and> snd (snd (?es ! (n div q)) ! r))"
      if "r < length idx" for r
    proof -
      have "fst (snd (?fs ! (n mod q)) ! r) = idx ! r"
        using "if" that by (metis nth_map)
      then show ?thesis using ie "if" that by (simp add: series_and_nth)
    qed
    from a b c show ?thesis by simp
  qed
  have "length (cols ?en) = p * q" "length (cols ?ex) = p * q" using p q by simp_all
  with run cols show ?thesis by blast
qed






lemma fold_update_lookup:
  "map_of (fold (\<lambda>(name, fig). AList.update (pre name) fig) figs d) k
   = (case map_of (rev (map (\<lambda>(name, fig). (pre name, fig)) figs)) k of
        None \<Rightarrow> map_of d k | Some fig \<Rightarrow> Some fig)"
proof (induction figs arbitrary: d)
  case Nil
  show ?case by simp
next
  case (Cons x figs)
  obtain name fig where x: "x = (name, fig)" by (cases x)
  show ?case
    by (simp add: x Cons.IH update_conv' map_add_def split: option.splits)
qed

lemma fold_map_entry:
  "fold (\<lambda>(name, fig). AList.map_entry cat (AList.update (pre name) fig)) figs b
   = AList.map_entry cat (fold (\<lambda>(name, fig). AList.update (pre name) fig) figs) b"
proof (induction figs arbitrary: b)
  case Nil
  show ?case by (induction b) auto
next
  case (Cons x figs)
  obtain name fig where x: "x = (name, fig)" by (cases x)
  have "AList.map_entry cat f (AList.map_entry cat g b) = AList.map_entry cat (f \<circ> g) b" for f g
    by (induction b) auto
  then show ?case by (simp add: x Cons.IH comp_def)
qed

lemma merge_category_lookup:
  "artifact_at (merge_category cat fname ff fd) c k
   = (if c = cat then
        (case map_of ff cat of
           None \<Rightarrow> artifact_at fd c k
         | Some figs \<Rightarrow>
             (case map_of (rev (map (\<lambda>(name, fig). (prefixed fname name, fig)) figs)) k of
                None \<Rightarrow> artifact_at fd c k
              | Some fig \<Rightarrow> Some fig))
      else artifact_at fd c k)"
  by (auto simp: merge_category_def artifact_at_def fold_map_entry map_of_map_entry
      fold_update_lookup update_conv' Let_def split: option.splits)

lemma prefixed_inject: "prefixed fname a = prefixed fname b \<longleftrightarrow> a = b"
  by (simp add: prefixed_def)

lemma map_of_rev_distinct:
  "distinct (map fst xs) \<Longrightarrow> map_of (rev xs) = map_of xs"
proof (induction xs)
  case Nil
  show ?case by simp
next
  case (Cons x xs)
  obtain k v where x: "x = (k, v)" by (cases x)
  from Cons.prems x have "map_of xs k = None" by (simp add: map_of_eq_None_iff)
  with Cons x show ?case by (auto simp: map_add_def fun_eq_iff split: option.splits)
qed

lemma map_of_prefixed:
  "map_of (map (\<lambda>(name, fig). (prefixed fname name, fig)) figs) (prefixed fname name)
   = map_of figs name"
  by (induction figs) (auto simp: prefixed_inject)

lemma map_of_prefixed_None:
  "k \<notin> prefixed fname ` fst ` set figs
   \<Longrightarrow> map_of (rev (map (\<lambda>(name, fig). (prefixed fname name, fig)) figs)) k = None"
  by (auto simp: map_of_eq_None_iff image_iff)

lemma map_of_rev_prefixed:
  assumes "distinct (map fst figs)"
  shows "map_of (rev (map (\<lambda>(name, fig). (prefixed fname name, fig)) figs)) (prefixed fname name)
         = map_of figs name"
proof -
  have "map fst (map (\<lambda>(name, fig). (prefixed fname name, fig)) figs)
        = map (prefixed fname) (map fst figs)"
    by (simp add: comp_def case_prod_unfold)
  with assms have "distinct (map fst (map (\<lambda>(name, fig). (prefixed fname name, fig)) figs))"
    by (simp add: distinct_map inj_on_def prefixed_inject)
  then show ?thesis by (simp add: map_of_rev_distinct map_of_prefixed)
qed

lemma merge_figures_lookup:
  "artifact_at (merge_figures fname (Some ff) fd) c k
   = (if c = ''figures'' \<or> c = ''overlaps'' then
        (case map_of ff c of
           None \<Rightarrow> artifact_at fd c k
         | Some figs \<Rightarrow>
             (case map_of (rev (map (\<lambda>(name, fig). (prefixed fname name, fig)) figs)) k of
                None \<Rightarrow> artifact_at fd c k
              | Some fig \<Rightarrow> Some fig))
      else artifact_at fd c k)"
  by (simp add: merge_figures_def merge_category_lookup cong: option.case_cong)

text \<open>
  C5, as the code has it. When a filter's bundle is merged, every artifact of its
  \<open>figures\<close> and \<open>overlaps\<close> categories is stored in the output bundle under the
  filter's name, an underscore and the artifact's name, replacing whatever was stored
  under that key; every other key of these categories, and every other category, of the
  output bundle is as before, so the other categories of the filter's bundle are not
  copied. No error comes from the bundles: whether the step fails does not depend on them.
\<close>

theorem merge_figures_rekeys:
  "((c = ''figures'' \<or> c = ''overlaps'') \<and> map_of ff c = Some figs
      \<and> distinct (map fst figs) \<and> map_of figs name = Some fig
     \<longrightarrow> artifact_at (merge_figures fname (Some ff) fd) c (prefixed fname name) = Some fig)
   \<and> ((\<forall>figs. map_of ff c1 = Some figs \<longrightarrow> k \<notin> prefixed fname ` fst ` set figs)
     \<longrightarrow> artifact_at (merge_figures fname (Some ff) fd) c1 k = artifact_at fd c1 k)
   \<and> (c2 \<noteq> ''figures'' \<and> c2 \<noteq> ''overlaps''
     \<longrightarrow> artifact_at (merge_figures fname (Some ff) fd) c2 k2 = artifact_at fd c2 k2)
   \<and> isl (add_filter fname filter_df filter_figures entries exits fd)
     = isl (add_filter fname filter_df None entries exits [])"
proof (intro conjI impI)
  assume a: "(c = ''figures'' \<or> c = ''overlaps'') \<and> map_of ff c = Some figs
      \<and> distinct (map fst figs) \<and> map_of figs name = Some fig"
  then have r: "map_of (rev (map (\<lambda>(name, fig). (prefixed fname name, fig)) figs))
                  (prefixed fname name) = Some fig"
    by (simp add: map_of_rev_prefixed)
  from a consider "c = ''figures''" | "c = ''overlaps''" by blast
  then show "artifact_at (merge_figures fname (Some ff) fd) c (prefixed fname name) = Some fig"
  proof cases
    case 1
    with a r show ?thesis by (simp add: merge_figures_lookup)
  next
    case 2
    with a r show ?thesis by (simp add: merge_figures_lookup)
  qed
next
  assume n: "\<forall>figs. map_of ff c1 = Some figs \<longrightarrow> k \<notin> prefixed fname ` fst ` set figs"
  have h: "(case map_of ff c1 of None \<Rightarrow> x
         | Some figs \<Rightarrow>
             (case map_of (rev (map (\<lambda>(name, fig). (prefixed fname name, fig)) figs)) k of
                None \<Rightarrow> x | Some fig \<Rightarrow> Some fig)) = x" for x :: "'a option"
    using n by (cases "map_of ff c1") (simp_all add: map_of_prefixed_None)
  consider "c1 = ''figures''" | "c1 = ''overlaps''" | "c1 \<noteq> ''figures'' \<and> c1 \<noteq> ''overlaps''"
    by blast
  then show "artifact_at (merge_figures fname (Some ff) fd) c1 k = artifact_at fd c1 k"
  proof cases
    case 1
    with h [of "artifact_at fd ''figures'' k"] show ?thesis
      by (simp add: merge_figures_lookup)
  next
    case 2
    with h [of "artifact_at fd ''overlaps'' k"] show ?thesis
      by (simp add: merge_figures_lookup)
  next
    case 3
    then show ?thesis by (simp add: merge_figures_lookup)
  qed
next
  assume "c2 \<noteq> ''figures'' \<and> c2 \<noteq> ''overlaps''"
  then show "artifact_at (merge_figures fname (Some ff) fd) c2 k2 = artifact_at fd c2 k2"
    by (simp add: merge_figures_lookup)
next
  show "isl (add_filter fname filter_df filter_figures entries exits fd)
     = isl (add_filter fname filter_df None entries exits [])"
    by (simp add: add_filter_def Let_def split: sum.splits)
qed

lemma probe_shape:
  "length (cols probe_entries) = 2" "length (cols probe_exits) = 2"
  "length (cols probe_filter) = 2"
  "on_index [0, 1] probe_entries" "on_index [0, 1] probe_filter"
  "distinct (labels probe_entries)" "well_labelled probe_filter"
  by (simp_all add: probe_entries_def probe_exits_def probe_filter_def on_index_def
      labels_def well_labelled_def)

theorem add_filters_product_witness:
  "length (cols probe_entries) = 2 \<and> length (cols probe_exits) = 2
   \<and> length (cols probe_filter) = 2
   \<and> on_index [0, 1] probe_entries \<and> on_index [0, 1] probe_filter
   \<and> (\<exists>en ex fd.
     add_filters probe_entries probe_exits ([] :: int fig_bundle) [(''mmi'', probe_filter, None)]
       = Inr (en, ex, fd)
     \<and> length (cols en) = 2 * 2 \<and> length (cols ex) = 2 * 2
     \<and> (\<forall>n<2 * 2.
           snd (cols en ! n) = series_and (snd (cols probe_filter ! (n mod 2)))
                                          (snd (cols probe_entries ! (n div 2)))
         \<and> snd (cols ex ! n) = snd (cols probe_exits ! (n div 2))
         \<and> (\<forall>r<length [0::nat, 1].
               snd (cols en ! n) ! r
               = ([0, 1] ! r, snd (snd (cols probe_filter ! (n mod 2)) ! r)
                           \<and> snd (snd (cols probe_entries ! (n div 2)) ! r)))))"
  by (intro conjI probe_shape add_filters_product [OF probe_shape(1,2,3,4,5)])


theorem merge_figures_rekeys_witness:
  "(''figures'' = ''figures'' \<or> ''figures'' = ''overlaps'')
   \<and> map_of [(''figures'', [(''index'', 7::int)])] ''figures'' = Some [(''index'', 7)]
   \<and> distinct (map fst [(''index'', 7::int)]) \<and> map_of [(''index'', 7::int)] ''index'' = Some 7
   \<and> artifact_at (merge_figures ''mmi'' (Some [(''figures'', [(''index'', 7::int)])])
                    [(''figures'', [(''mmi_index'', 1)])]) ''figures'' (prefixed ''mmi'' ''index'')
     = Some 7
   \<and> ''other'' \<notin> prefixed ''mmi'' ` fst ` set [(''index'', 7::int)]
   \<and> artifact_at (merge_figures ''mmi'' (Some [(''figures'', [(''index'', 7::int)])])
                    [(''figures'', [(''mmi_index'', 1)])]) ''figures'' ''other''
     = artifact_at [(''figures'', [(''mmi_index'', 1::int)])] ''figures'' ''other''
   \<and> ''markers'' \<noteq> ''figures'' \<and> ''markers'' \<noteq> ''overlaps''
   \<and> artifact_at (merge_figures ''mmi'' (Some [(''figures'', [(''index'', 7::int)])])
                    [(''figures'', [(''mmi_index'', 1)])]) ''markers'' ''m''
     = artifact_at [(''figures'', [(''mmi_index'', 1::int)])] ''markers'' ''m''"
proof -
  have h1: "(''figures'' = ''figures'' \<or> ''figures'' = ''overlaps'')
   \<and> map_of [(''figures'', [(''index'', 7::int)])] ''figures'' = Some [(''index'', 7)]
   \<and> distinct (map fst [(''index'', 7::int)]) \<and> map_of [(''index'', 7::int)] ''index'' = Some 7"
    by simp
  have h2: "\<forall>figs. map_of [(''figures'', [(''index'', 7::int)])] ''figures'' = Some figs
         \<longrightarrow> ''other'' \<notin> prefixed ''mmi'' ` fst ` set figs"
    by (simp add: prefixed_def)
  have h3: "''markers'' \<noteq> ''figures'' \<and> ''markers'' \<noteq> ''overlaps''" by simp
  note t = merge_figures_rekeys [of "''figures''" "[(''figures'', [(''index'', 7::int)])]" "[(''index'', 7::int)]"
      "''index''" "7::int" "''mmi''" "[(''figures'', [(''mmi_index'', 1::int)])]" "''figures''"
      "''other''" "''markers''" "''m''" probe_filter None probe_entries probe_exits]
  from t h1 have r1: "artifact_at (merge_figures ''mmi'' (Some [(''figures'', [(''index'', 7::int)])])
                    [(''figures'', [(''mmi_index'', 1)])]) ''figures'' (prefixed ''mmi'' ''index'')
     = Some 7" by blast
  from t h2 have r2: "artifact_at (merge_figures ''mmi'' (Some [(''figures'', [(''index'', 7::int)])])
                    [(''figures'', [(''mmi_index'', 1)])]) ''figures'' ''other''
     = artifact_at [(''figures'', [(''mmi_index'', 1::int)])] ''figures'' ''other''" by blast
  from t h3 have r3: "artifact_at (merge_figures ''mmi'' (Some [(''figures'', [(''index'', 7::int)])])
                    [(''figures'', [(''mmi_index'', 1)])]) ''markers'' ''m''
     = artifact_at [(''figures'', [(''mmi_index'', 1::int)])] ''markers'' ''m''" by blast
  have h4: "''other'' \<notin> prefixed ''mmi'' ` fst ` set [(''index'', 7::int)]"
    by (simp add: prefixed_def)
  from h1 h3 h4 r1 r2 r3 show ?thesis by blast
qed

text \<open>
  C5, as stated, fails: the filters \<open>a\<close> and \<open>a_b\<close> store the artifacts \<open>b_c\<close> and
  \<open>c\<close>, both under the key \<open>a_b_c\<close>. The composition succeeds, the second artifact
  has replaced the first, and the \<open>markers\<close> category of the first filter is not in the
  output bundle.
\<close>

theorem add_filters_collision_overwrites:
  "add_filters probe_entries probe_exits []
     [(''a'', probe_filter, Some [(''figures'', [(''b_c'', 1::int)]), (''markers'', [(''m'', 3)])]),
      (''a_b'', probe_filter, Some [(''figures'', [(''c'', 2)])])]
   = Inr (\<lparr>names = [''a_b_timeperiod'', ''a_timeperiod'', ''n''],
           cols = [([10, 10, 1], [(0, True), (1, False)]), ([20, 10, 1], [(0, False), (1, False)]),
                   ([10, 20, 1], [(0, False), (1, False)]), ([20, 20, 1], [(0, False), (1, False)]),
                   ([10, 10, 2], [(0, True), (1, True)]), ([20, 10, 2], [(0, False), (1, True)]),
                   ([10, 20, 2], [(0, False), (1, True)]), ([20, 20, 2], [(0, False), (1, True)])]\<rparr>,
          \<lparr>names = [''a_b_timeperiod'', ''a_timeperiod'', ''n''],
           cols = [([10, 10, 1], [(0, False), (1, True)]), ([20, 10, 1], [(0, False), (1, True)]),
                   ([10, 20, 1], [(0, False), (1, True)]), ([20, 20, 1], [(0, False), (1, True)]),
                   ([10, 10, 2], [(0, False), (1, False)]), ([20, 10, 2], [(0, False), (1, False)]),
                   ([10, 20, 2], [(0, False), (1, False)]), ([20, 20, 2], [(0, False), (1, False)])]\<rparr>,
          [(''figures'', [(''a_b_c'', 2)])])
   \<and> prefixed ''a'' ''b_c'' = prefixed ''a_b'' ''c''"
  by (simp add: add_filter_def vbt_and_def tile_def repeat_def set_columns_def series_and_def
      merge_figures_def merge_category_def prefixed_def probe_entries_def probe_exits_def
      probe_filter_def Let_def)

end
